theory Spec2Isabelle
  imports Main "HOL-Library.Word"
begin

section \<open>Device objects seen through the Intersector interface\<close>

text \<open>
  \<^verbatim>\<open>intersector.h\<close> declares the class \<^verbatim>\<open>RadeonRays::Intersector\<close>. Every query
  function takes its device objects by pointer: \<^verbatim>\<open>Calc::Buffer const*\<close> for inputs,
  \<^verbatim>\<open>Calc::Buffer*\<close> for the hits, \<^verbatim>\<open>Calc::Event const*\<close> for the event to wait for
  and \<^verbatim>\<open>Calc::Event**\<close> for the place where the completion event is stored. A pointer
  is an optional handle here (\<open>None\<close> is \<^verbatim>\<open>nullptr\<close>); what the pointers refer to lives
  in an explicit store, so that "the call wrote nothing" is a statement about that
  store.
\<close>

type_synonym buffer_ptr = "nat option"
type_synonym event_ptr = "nat option"
type_synonym event_out = "nat option"

text \<open>
  The header includes \<^verbatim>\<open>calc.h\<close>, \<^verbatim>\<open>buffer.h\<close> and \<^verbatim>\<open>event.h\<close> but none of them is
  part of the sources, so the content of a buffer is kept abstract: a buffer holds ray
  records of some type \<open>'r\<close>, result records of some type \<open>'h\<close>, or one 32-bit count
  (the header's "Buffer, containing the number of rays in rays buffer").
\<close>

datatype ('r, 'h) contents = Rays "'r list" | Hits "'h list" | Count "32 word"

record ('r, 'h) calc_state =
  buffers :: "nat \<Rightarrow> ('r, 'h) contents option"
  events :: "bool list"
  event_vars :: "nat \<Rightarrow> event_ptr"

text \<open>
  \<open>buffers\<close> maps the handle of each live buffer to its content; \<open>events\<close> lists the
  events created so far (the handle is the index, the entry says whether the event has
  signaled); \<open>event_vars\<close> are the caller's \<^verbatim>\<open>Calc::Event*\<close> variables, by address: a
  \<^verbatim>\<open>Calc::Event**\<close> argument is the address of one of them.

  The header has no error type: every function returns \<^verbatim>\<open>void\<close> or \<^verbatim>\<open>bool\<close>. The
  kinds of error below are the taxonomy of the specification; a call that returns
  normally is \<open>Inr\<close> of the store it leaves behind.
\<close>

datatype error =
  IncompatibleWorld | NotPreprocessed | InvalidArgument | UnsupportedOperation | DeviceFailure

section \<open>The specialized occlusion entry points and their default bodies\<close>

text \<open>
  The two private virtual functions \<^verbatim>\<open>Occluded2dSumLinear2\<close> and
  \<^verbatim>\<open>Occluded2dCellString\<close> are not pure: the header gives each the body \<^verbatim>\<open>{}\<close>.
  The parameters are kept in the order of the header.
\<close>

type_synonym ('r, 'h) sum_linear2_fn =
  "32 word \<Rightarrow> buffer_ptr \<Rightarrow> buffer_ptr \<Rightarrow> buffer_ptr \<Rightarrow> buffer_ptr \<Rightarrow> buffer_ptr \<Rightarrow>
   buffer_ptr \<Rightarrow> buffer_ptr \<Rightarrow> buffer_ptr \<Rightarrow> 32 word \<Rightarrow> buffer_ptr \<Rightarrow>
   event_ptr \<Rightarrow> event_out \<Rightarrow> ('r, 'h) calc_state \<Rightarrow> error + ('r, 'h) calc_state"

type_synonym ('r, 'h) cell_string_fn =
  "32 word \<Rightarrow> buffer_ptr \<Rightarrow> buffer_ptr \<Rightarrow> buffer_ptr \<Rightarrow> buffer_ptr \<Rightarrow> buffer_ptr \<Rightarrow>
   buffer_ptr \<Rightarrow> 32 word \<Rightarrow> buffer_ptr \<Rightarrow>
   event_ptr \<Rightarrow> event_out \<Rightarrow> ('r, 'h) calc_state \<Rightarrow> error + ('r, 'h) calc_state"

definition Occluded2dSumLinear2 :: "('r, 'h) sum_linear2_fn" where
  "Occluded2dSumLinear2 queueidx origins directions koefs offset_directions offset_koefs
     num_origins num_directions directions_stride maxrays hits wait_event event s = Inr s"

definition Occluded2dCellString :: "('r, 'h) cell_string_fn" where
  "Occluded2dCellString queueidx origins directions num_origins num_directions
     cell_string_inds num_cell_strings max_ray_batches hits wait_event event s = Inr s"

text \<open>
  An object of the class: its data members (the device and the three count buffers,
  as handles) and, for each of the two virtual functions above, the body a derived
  class puts in its place, if it does. A virtual call runs the override when there is
  one and the base body otherwise.
\<close>

record ('r, 'h) intersector =
  m_device :: nat
  m_counter :: nat
  m_counter2 :: nat
  m_counter3 :: nat
  override_Occluded2dSumLinear2 :: "('r, 'h) sum_linear2_fn option"
  override_Occluded2dCellString :: "('r, 'h) cell_string_fn option"

definition call_Occluded2dSumLinear2 :: "('r, 'h) intersector \<Rightarrow> ('r, 'h) sum_linear2_fn" where
  "call_Occluded2dSumLinear2 isect =
     (case override_Occluded2dSumLinear2 isect of
        None \<Rightarrow> Occluded2dSumLinear2
      | Some f \<Rightarrow> f)"

definition call_Occluded2dCellString :: "('r, 'h) intersector \<Rightarrow> ('r, 'h) cell_string_fn" where
  "call_Occluded2dCellString isect =
     (case override_Occluded2dCellString isect of
        None \<Rightarrow> Occluded2dCellString
      | Some f \<Rightarrow> f)"

subsection \<open>A backend that overrides neither, and a store with stale hits\<close>

definition plain_intersector :: "(nat, int) intersector" where
  "plain_intersector =
     \<lparr>m_device = 0, m_counter = 100, m_counter2 = 101, m_counter3 = 102,
      override_Occluded2dSumLinear2 = None, override_Occluded2dCellString = None\<rparr>"

definition stale_store :: "(nat, int) calc_state" where
  "stale_store =
     \<lparr>buffers = (Map.empty(1 := Some (Rays [4, 5]), 2 := Some (Rays [6, 7]),
                   9 := Some (Hits [-7, -7]))),
      events = [],
      event_vars = (\<lambda>a. None)\<rparr>"

section \<open>Queries that read the ray count from a device buffer\<close>

text \<open>
  The two public overloads that take \<^verbatim>\<open>Calc::Buffer const* num_rays\<close> together with
  \<^verbatim>\<open>std::uint32_t max_rays\<close> are declared in the header; their bodies
  (\<^verbatim>\<open>intersector.cpp\<close>) and the functions they end in, the pure virtual
  \<^verbatim>\<open>Intersect\<close> and \<^verbatim>\<open>Occluded\<close> that every concrete backend implements, are not
  part of the sources. What follows is therefore written from the specification.
\<close>

text \<open>
  Modelled from the spec: what the specification lets a query see of a concrete backend
  (no backend class is in the sources). The device has the queues \<open>0 ..< queue_count\<close>;
  a world is bound once \<^verbatim>\<open>SetWorld\<close> has returned; \<open>trace_ray\<close> is the Hit record
  (full detail or the no-hit sentinel) and \<open>occlude_ray\<close> the boolean-equivalent record
  the backend finds for one ray against the bound world.
\<close>

record ('r, 'h) backend =
  queue_count :: nat
  world_bound :: bool
  trace_ray :: "'r \<Rightarrow> 'h"
  occlude_ray :: "'r \<Rightarrow> 'h"

text \<open>
  Modelled from the spec: the defensive clamp of the device-resident count ("must never
  process more than \<^verbatim>\<open>max_rays\<close> entries regardless of what the resident value
  contains"). The code that reads the count is in the backends, which are missing.
\<close>

definition clamp_count :: "32 word \<Rightarrow> 32 word \<Rightarrow> nat" where
  "clamp_count resident max_rays = min (unat resident) (unat max_rays)"

text \<open>
  Modelled from the spec: the device pass of a backend, which is missing ("writes one
  Hit record per ray"): for \<open>i = 0, \<dots>, n - 1\<close> the result of ray \<open>i\<close> is stored in slot
  \<open>i\<close> of the hits.
\<close>

primrec write_results :: "('r \<Rightarrow> 'h) \<Rightarrow> 'r list \<Rightarrow> nat \<Rightarrow> 'h list \<Rightarrow> 'h list" where
  "write_results f rays 0 out = out"
| "write_results f rays (Suc i) out = (write_results f rays i out)[i := f (rays ! i)]"

text \<open>
  Modelled from the spec: the completion event of a query (the event abstraction is
  missing). The store returned by a query is the store at the moment its completion
  event has signaled ("writes are only guaranteed complete and visible once the
  returned/out Event signals"), so the new event is entered as signaled; it is handed
  to the caller when the \<^verbatim>\<open>Calc::Event**\<close> argument is not null.
\<close>

definition complete :: "event_out \<Rightarrow> ('r, 'h) calc_state \<Rightarrow> ('r, 'h) calc_state" where
  "complete event s =
     s\<lparr>events := events s @ [True],
       event_vars := (case event of
                        None \<Rightarrow> event_vars s
                      | Some a \<Rightarrow> (event_vars s)(a := Some (length (events s))))\<rparr>"

text \<open>
  Modelled from the spec: reading the ray buffer of a query (the buffer abstraction is
  missing). A null pointer, a handle of no live buffer and a buffer of the wrong kind
  are the specification's "invalid/null required buffers".
\<close>

definition read_rays :: "('r, 'h) calc_state \<Rightarrow> buffer_ptr \<Rightarrow> 'r list option" where
  "read_rays s p =
     (case p of
        None \<Rightarrow> None
      | Some a \<Rightarrow> (case buffers s a of Some (Rays rs) \<Rightarrow> Some rs | _ \<Rightarrow> None))"

text \<open>
  Modelled from the spec: reading the device-resident count ("the backend must read the
  count from the device-resident buffer before dispatching work"); the buffer
  abstraction is missing.
\<close>

definition read_count :: "('r, 'h) calc_state \<Rightarrow> buffer_ptr \<Rightarrow> 32 word option" where
  "read_count s p =
     (case p of
        None \<Rightarrow> None
      | Some a \<Rightarrow> (case buffers s a of Some (Count c) \<Rightarrow> Some c | _ \<Rightarrow> None))"

text \<open>
  Modelled from the spec: finding the hits buffer of a query, with its handle (the
  buffer abstraction is missing).
\<close>

definition read_hits :: "('r, 'h) calc_state \<Rightarrow> buffer_ptr \<Rightarrow> (nat \<times> 'h list) option" where
  "read_hits s p =
     (case p of
        None \<Rightarrow> None
      | Some a \<Rightarrow> (case buffers s a of Some (Hits hs) \<Rightarrow> Some (a, hs) | _ \<Rightarrow> None))"

text \<open>
  Modelled from the spec: a query with a device-resident count (section 4.2; the bodies of
  the public overloads and of the backends' \<^verbatim>\<open>Intersect\<close> and \<^verbatim>\<open>Occluded\<close> are
  missing). A \<^verbatim>\<open>max_rays\<close> of zero is a legal no-operation that completes at once; an
  out-of-range queue, an invalid or null required buffer and an unbound world are
  errors; otherwise the count is read from the buffer and clamped, a count of zero is
  again a no-operation, and one record per ray is written. \<open>wait_event\<close> only delays
  the start of the device work and has no part in the store at completion.
\<close>

definition resident_query ::
  "('r \<Rightarrow> 'h) \<Rightarrow> ('r, 'h) backend \<Rightarrow> 32 word \<Rightarrow> buffer_ptr \<Rightarrow> buffer_ptr \<Rightarrow> 32 word \<Rightarrow>
   buffer_ptr \<Rightarrow> event_ptr \<Rightarrow> event_out \<Rightarrow> ('r, 'h) calc_state \<Rightarrow> error + ('r, 'h) calc_state"
where
  "resident_query f b queue_idx rays num_rays max_rays hits wait_event event s =
     (if max_rays = 0 then Inr (complete event s)
      else if \<not> unat queue_idx < queue_count b then Inl InvalidArgument
      else
        (case (read_rays s rays, read_count s num_rays, read_hits s hits) of
           (Some rs, Some c, Some (hb, hs)) \<Rightarrow>
             if \<not> world_bound b then Inl NotPreprocessed
             else if clamp_count c max_rays = 0 then Inr (complete event s)
             else if length rs < clamp_count c max_rays \<or> length hs < clamp_count c max_rays
               then Inl InvalidArgument
             else
               Inr (complete event
                 (s\<lparr>buffers := (buffers s)
                      (hb := Some (Hits (write_results f rs (clamp_count c max_rays) hs)))\<rparr>))
         | _ \<Rightarrow> Inl InvalidArgument))"

text \<open>
  Modelled from the spec: the public overload
  \<^verbatim>\<open>QueryIntersection(queue_idx, rays, Buffer const* num_rays, max_rays, hits, wait_event, event)\<close>,
  whose body is missing: the query above with the backend's intersection result per ray.
\<close>

definition QueryIntersection_buf ::
  "('r, 'h) backend \<Rightarrow> 32 word \<Rightarrow> buffer_ptr \<Rightarrow> buffer_ptr \<Rightarrow> 32 word \<Rightarrow>
   buffer_ptr \<Rightarrow> event_ptr \<Rightarrow> event_out \<Rightarrow> ('r, 'h) calc_state \<Rightarrow> error + ('r, 'h) calc_state"
where
  "QueryIntersection_buf b = resident_query (trace_ray b) b"

text \<open>
  Modelled from the spec: the public overload
  \<^verbatim>\<open>QueryOcclusion(queue_idx, rays, Buffer const* num_rays, max_rays, hits, wait_event, event)\<close>,
  whose body is missing: the same query with the backend's occlusion record per ray.
\<close>

definition QueryOcclusion_buf ::
  "('r, 'h) backend \<Rightarrow> 32 word \<Rightarrow> buffer_ptr \<Rightarrow> buffer_ptr \<Rightarrow> 32 word \<Rightarrow>
   buffer_ptr \<Rightarrow> event_ptr \<Rightarrow> event_out \<Rightarrow> ('r, 'h) calc_state \<Rightarrow> error + ('r, 'h) calc_state"
where
  "QueryOcclusion_buf b = resident_query (occlude_ray b) b"

subsection \<open>What a query may have written\<close>

text \<open>
  The slots in which two versions of the hits differ, and the statement that a query
  that returned wrote to the hits only, in at most \<^verbatim>\<open>max_rays\<close> slots and in none from
  slot \<^verbatim>\<open>max_rays\<close> on.
\<close>

definition changed_slots :: "'h list \<Rightarrow> 'h list \<Rightarrow> nat list" where
  "changed_slots old new = filter (\<lambda>i. new ! i \<noteq> old ! i) [0..<length old]"

definition writes_within ::
  "32 word \<Rightarrow> buffer_ptr \<Rightarrow> ('r, 'h) calc_state \<Rightarrow> error + ('r, 'h) calc_state \<Rightarrow> bool"
where
  "writes_within max_rays hits s res =
     (case res of
        Inl e \<Rightarrow> True
      | Inr s' \<Rightarrow>
          (case read_hits s hits of
             None \<Rightarrow> buffers s' = buffers s
           | Some (hb, hs) \<Rightarrow>
               (case read_hits s' hits of
                  None \<Rightarrow> False
                | Some (hb', hs') \<Rightarrow>
                    (\<forall>a. a \<noteq> hb \<longrightarrow> buffers s' a = buffers s a) \<and>
                    length hs' = length hs \<and>
                    drop (unat max_rays) hs' = drop (unat max_rays) hs \<and>
                    length (changed_slots hs hs') \<le> unat max_rays)))"

subsection \<open>A backend, and a store whose count buffer holds more than \<^verbatim>\<open>max_rays\<close>\<close>

definition demo_backend :: "(nat, int) backend" where
  "demo_backend =
     \<lparr>queue_count = 1, world_bound = True,
      trace_ray = (\<lambda>r. int r * 10), occlude_ray = (\<lambda>r. if r < 3 then 1 else -1)\<rparr>"

definition demo_store :: "(nat, int) calc_state" where
  "demo_store =
     \<lparr>buffers = (Map.empty(1 := Some (Rays [1, 2, 3, 4, 5]), 2 := Some (Count 5),
                   3 := Some (Hits [-7, -7, -7, -7]))),
      events = [],
      event_vars = (\<lambda>a. None)\<rparr>"

section \<open>The default bodies do nothing\<close>

text \<open>
  Claim C1, as the code has it. When a backend overrides neither specialized entry
  point, a call of \<^verbatim>\<open>Occluded2dSumLinear2\<close> or \<^verbatim>\<open>Occluded2dCellString\<close> runs the
  empty body of the base class: it returns normally, reports no error, and leaves the
  whole store as it was. In particular nothing is written to the hits, no event is
  created, and the caller's completion-event variable keeps its old value.
\<close>

theorem default_reduction_is_silent_no_op:
  "(override_Occluded2dSumLinear2 isect = None \<longrightarrow>
      call_Occluded2dSumLinear2 isect queueidx origins directions koefs offset_directions
        offset_koefs num_origins num_directions directions_stride maxrays hits wait_event
        event s = Inr s) \<and>
   (override_Occluded2dCellString isect = None \<longrightarrow>
      call_Occluded2dCellString isect queueidx origins directions num_origins
        num_directions cell_string_inds num_cell_strings max_ray_batches hits wait_event
        event s = Inr s)"
  by (simp add: call_Occluded2dSumLinear2_def call_Occluded2dCellString_def
      Occluded2dSumLinear2_def Occluded2dCellString_def)

text \<open>
  The theorem at \<open>plain_intersector\<close>, which overrides neither function, and
  \<open>stale_store\<close>, whose hits buffer 9 holds old values and whose event variable 0 is
  null: both calls return that very store.
\<close>

theorem default_reduction_is_silent_no_op_witness:
  "override_Occluded2dSumLinear2 plain_intersector = None \<and>
   call_Occluded2dSumLinear2 plain_intersector 0 (Some 1) (Some 2) None None None
     (Some 100) (Some 101) (Some 102) 4 (Some 9) None (Some 0) stale_store = Inr stale_store \<and>
   override_Occluded2dCellString plain_intersector = None \<and>
   call_Occluded2dCellString plain_intersector 0 (Some 1) (Some 2) (Some 100) (Some 101)
     None (Some 102) 4 (Some 9) None (Some 0) stale_store = Inr stale_store"
  using default_reduction_is_silent_no_op [where isect = plain_intersector and queueidx = 0
      and origins = "Some 1" and directions = "Some 2" and koefs = None
      and offset_directions = None and offset_koefs = None and num_origins = "Some 100"
      and num_directions = "Some 101" and directions_stride = "Some 102" and maxrays = 4
      and hits = "Some 9" and wait_event = None and event = "Some 0" and s = stale_store
      and cell_string_inds = None and num_cell_strings = "Some 102" and max_ray_batches = 4]
  by (simp add: plain_intersector_def)

text \<open>
  Claim C1 as it is worded asks for an \<open>UnsupportedOperation\<close> error from such a
  backend. On \<open>plain_intersector\<close> and \<open>stale_store\<close> neither call reports it.
\<close>

theorem unsupported_operation_counterexample:
  "call_Occluded2dSumLinear2 plain_intersector 0 (Some 1) (Some 2) None None None
     (Some 100) (Some 101) (Some 102) 4 (Some 9) None (Some 0) stale_store
     \<noteq> Inl UnsupportedOperation \<and>
   call_Occluded2dCellString plain_intersector 0 (Some 1) (Some 2) (Some 100) (Some 101)
     None (Some 102) 4 (Some 9) None (Some 0) stale_store
     \<noteq> Inl UnsupportedOperation"
  by (simp add: call_Occluded2dSumLinear2_def call_Occluded2dCellString_def
      Occluded2dSumLinear2_def Occluded2dCellString_def plain_intersector_def)

section \<open>The device pass stays below the clamped count\<close>

lemma length_write_results: "length (write_results f rays n out) = length out"
  by (induction n) simp_all

lemma nth_write_results_beyond: "n \<le> i \<Longrightarrow> write_results f rays n out ! i = out ! i"
  by (induction n) simp_all

lemma drop_write_results: "n \<le> m \<Longrightarrow> drop m (write_results f rays n out) = drop m out"
  by (induction n) simp_all

lemma nth_write_results_below:
  "i < n \<Longrightarrow> n \<le> length out \<Longrightarrow> write_results f rays n out ! i = f (rays ! i)"
proof (induction n)
  case 0
  then show ?case by simp
next
  case (Suc n)
  show ?case
  proof (cases "i = n")
    case True
    with Suc.prems show ?thesis by (simp add: length_write_results)
  next
    case False
    with Suc show ?thesis by simp
  qed
qed

text \<open>A pass over \<open>n\<close> rays changes at most \<open>n\<close> slots, all of them below \<open>n\<close>.\<close>

lemma changed_slots_bound:
  "length (changed_slots out (write_results f rays n out)) \<le> n"
proof -
  let ?cs = "changed_slots out (write_results f rays n out)"
  have "set ?cs \<subseteq> {..<n}"
  proof
    fix i assume "i \<in> set ?cs"
    then have "write_results f rays n out ! i \<noteq> out ! i"
      by (simp add: changed_slots_def)
    then have "\<not> n \<le> i" using nth_write_results_beyond by blast
    then show "i \<in> {..<n}" by simp
  qed
  then have "card (set ?cs) \<le> card {..<n}" by (intro card_mono) simp_all
  moreover have "distinct ?cs" by (simp add: changed_slots_def)
  ultimately show ?thesis by (simp add: distinct_card)
qed

lemma changed_slots_same: "changed_slots hs hs = []"
  by (simp add: changed_slots_def)

lemma clamp_count_le: "clamp_count resident max_rays \<le> unat max_rays"
  by (simp add: clamp_count_def)

lemma buffers_complete: "buffers (complete event s) = buffers s"
  by (simp add: complete_def)

lemma read_hits_complete: "read_hits (complete event s) p = read_hits s p"
  by (cases p) (simp_all add: read_hits_def buffers_complete)

subsection \<open>The three ways a query ends\<close>

lemma writes_within_error: "writes_within max_rays hits s (Inl e)"
  by (simp add: writes_within_def)

lemma writes_within_noop: "writes_within max_rays hits s (Inr (complete event s))"
  by (simp add: writes_within_def read_hits_complete buffers_complete changed_slots_same
      split: option.splits)

lemma writes_within_pass:
  assumes "read_hits s hits = Some (hb, hs)" and "n \<le> unat max_rays"
  shows "writes_within max_rays hits s
           (Inr (complete event
              (s\<lparr>buffers := (buffers s)(hb := Some (Hits (write_results f rs n hs)))\<rparr>)))"
proof -
  from assms(1) have hits: "hits = Some hb"
    by (auto simp: read_hits_def split: option.splits contents.splits)
  have "length (changed_slots hs (write_results f rs n hs)) \<le> unat max_rays"
    using changed_slots_bound [of hs f rs n] assms(2) by (rule order_trans)
  then show ?thesis
    using assms
    by (simp add: writes_within_def read_hits_def buffers_complete hits
        length_write_results drop_write_results)
qed

lemma writes_within_resident_query:
  "writes_within max_rays hits s
     (resident_query f b queue_idx rays num_rays max_rays hits wait_event event s)"
  by (auto simp: resident_query_def writes_within_error writes_within_noop
      writes_within_pass clamp_count_le split: option.splits)

text \<open>
  Claim C2. Whatever count the count buffer holds, the number of rays a
  device-resident-count query processes (the clamped count) is at most
  \<^verbatim>\<open>max_rays\<close>, and a query that returns, \<^verbatim>\<open>QueryIntersection\<close> or
  \<^verbatim>\<open>QueryOcclusion\<close>, has written to the hits buffer only: the buffer keeps its
  length, at most \<^verbatim>\<open>max_rays\<close> of its slots have changed, and every slot from index
  \<^verbatim>\<open>max_rays\<close> on holds what it held before.
\<close>

theorem resident_count_clamped_to_max_rays:
  "clamp_count resident max_rays \<le> unat max_rays \<and>
   writes_within max_rays hits s
     (QueryIntersection_buf b queue_idx rays num_rays max_rays hits wait_event event s) \<and>
   writes_within max_rays hits s
     (QueryOcclusion_buf b queue_idx rays num_rays max_rays hits wait_event event s)"
  by (simp add: clamp_count_le QueryIntersection_buf_def QueryOcclusion_buf_def
      writes_within_resident_query)

lemma write_results_two:
  "write_results f rays 2 out = out[0 := f (rays ! 0), 1 := f (rays ! 1)]"
  by (simp add: numeral_2_eq_2)

lemma clamp_count_example: "clamp_count 5 2 = 2"
  by (simp add: clamp_count_def)

text \<open>
  The theorem at \<open>demo_store\<close>: the count buffer holds 5, \<^verbatim>\<open>max_rays\<close> is 2 and the
  hits buffer has four slots. Both queries return, fill the slots 0 and 1, and leave
  the slots 2 and 3 alone.
\<close>

theorem resident_count_clamped_to_max_rays_witness:
  "clamp_count 5 2 = 2 \<and>
   (case QueryIntersection_buf demo_backend 0 (Some 1) (Some 2) 2 (Some 3) None (Some 0)
           demo_store of
      Inl e \<Rightarrow> None
    | Inr s' \<Rightarrow> read_hits s' (Some 3)) = Some (3, [10, 20, -7, -7]) \<and>
   writes_within 2 (Some 3) demo_store
     (QueryIntersection_buf demo_backend 0 (Some 1) (Some 2) 2 (Some 3) None (Some 0)
        demo_store) \<and>
   (case QueryOcclusion_buf demo_backend 0 (Some 1) (Some 2) 2 (Some 3) None (Some 0)
           demo_store of
      Inl e \<Rightarrow> None
    | Inr s' \<Rightarrow> read_hits s' (Some 3)) = Some (3, [1, 1, -7, -7]) \<and>
   writes_within 2 (Some 3) demo_store
     (QueryOcclusion_buf demo_backend 0 (Some 1) (Some 2) 2 (Some 3) None (Some 0)
        demo_store)"
  using resident_count_clamped_to_max_rays [where resident = 5 and max_rays = 2
      and hits = "Some 3" and s = demo_store and b = demo_backend and queue_idx = 0
      and rays = "Some 1" and num_rays = "Some 2" and wait_event = None and event = "Some 0"]
  by (simp add: QueryIntersection_buf_def QueryOcclusion_buf_def resident_query_def
      clamp_count_example write_results_two read_rays_def read_count_def read_hits_def
      complete_def demo_backend_def demo_store_def)

end
